theory Spec2Isabelle
  imports Main
begin

section \<open>JavaScript values\<close>

text \<open>
  The values that travel between the server, the remote ERP client and the protocol client
  are plain JavaScript data. Objects are association lists in property order. Numbers are
  modelled as integers: the code below only tests a number for truthiness, copies it into a
  filter or prints it, and the identifiers it handles are record ids.
\<close>

datatype jsval =
    Undefined
  | Null
  | Bool bool
  | Num int
  | Str string
  | Arr "jsval list"
  | Obj "(string \<times> jsval) list"

text \<open>Thrown values (rejections of a promise) are opaque.\<close>

datatype js_error = JsError string

text \<open>\<open>a ?? b\<close>: the right operand replaces \<open>undefined\<close> and \<open>null\<close> only.\<close>

fun nullish :: "jsval \<Rightarrow> jsval \<Rightarrow> jsval" where
  "nullish Undefined d = d"
| "nullish Null d = d"
| "nullish v d = v"

text \<open>\<open>a ?? b\<close> on an optional property of a typed interface (absent is \<open>None\<close>).\<close>

fun nullish_opt :: "'a option \<Rightarrow> 'a \<Rightarrow> 'a" where
  "nullish_opt None d = d"
| "nullish_opt (Some v) d = v"

text \<open>
  Truthiness of an optional number and of an optional string, as \<open>if (x)\<close> tests it:
  \<open>undefined\<close>, \<open>0\<close> and the empty string are falsy. The result is the value when it is
  truthy.
\<close>

fun truthy_num :: "int option \<Rightarrow> int option" where
  "truthy_num None = None"
| "truthy_num (Some n) = (if n = 0 then None else Some n)"

fun truthy_str :: "string option \<Rightarrow> string option" where
  "truthy_str None = None"
| "truthy_str (Some s) = (if s = [] then None else Some s)"

text \<open>
  \<open>String.prototype.toLowerCase\<close> on the ASCII letters; every other character is kept.
  It is applied to e-mail addresses only.
\<close>

definition lower_char :: "char \<Rightarrow> char" where
  "lower_char c =
     (if 65 \<le> (of_char c :: nat) \<and> (of_char c :: nat) \<le> 90
      then char_of (of_char c + (32::nat)) else c)"

definition toLowerCase :: "string \<Rightarrow> string" where
  "toLowerCase s = map lower_char s"

subsection \<open>JSON.stringify with an indentation of two spaces\<close>

definition hex_digit :: "nat \<Rightarrow> char" where
  "hex_digit d = (if d < 10 then char_of (48 + d) else char_of (87 + d))"

definition quote_char :: "char \<Rightarrow> string" where
  "quote_char c =
     (let n = (of_char c :: nat) in
      if n = 8 then [CHR 0x5C, CHR ''b'']
      else if n = 9 then [CHR 0x5C, CHR ''t'']
      else if n = 10 then [CHR 0x5C, CHR ''n'']
      else if n = 12 then [CHR 0x5C, CHR ''f'']
      else if n = 13 then [CHR 0x5C, CHR ''r'']
      else if n = 34 then [CHR 0x5C, CHR 0x22]
      else if n = 92 then [CHR 0x5C, CHR 0x5C]
      else if n < 32 then [CHR 0x5C, CHR ''u'', CHR ''0'', CHR ''0'',
                           hex_digit (n div 16), hex_digit (n mod 16)]
      else [c])"

definition QuoteJSONString :: "string \<Rightarrow> string" where
  "QuoteJSONString s = [CHR 0x22] @ concat (map quote_char s) @ [CHR 0x22]"

text \<open>
  \<open>Number.prototype.toString\<close> on an integer: its decimal digits, with a minus sign when
  negative (the form JavaScript prints for the integers below \<open>10\<^sup>2\<^sup>1\<close> in magnitude).
\<close>

function digits :: "nat \<Rightarrow> string" where
  "digits n =
     (if n < 10 then [char_of (48 + n)]
      else digits (n div 10) @ [char_of (48 + n mod 10)])"
  by pat_completeness auto
termination
  by (relation "measure (\<lambda>n. n)") auto

declare digits.simps [simp del]

definition Number_toString :: "int \<Rightarrow> string" where
  "Number_toString i = (if i < 0 then ''-'' @ digits (nat (- i)) else digits (nat i))"

fun join :: "string \<Rightarrow> string list \<Rightarrow> string" where
  "join sep [] = []"
| "join sep [x] = x"
| "join sep (x # y # ys) = x @ sep @ join sep (y # ys)"

definition gap :: string where
  "gap = ''  ''"

definition newline :: string where
  "newline = [CHR 0x0A]"

fun SerializeJSONProperty :: "string \<Rightarrow> jsval \<Rightarrow> string option" where
  "SerializeJSONProperty indent Undefined = None"
| "SerializeJSONProperty indent Null = Some ''null''"
| "SerializeJSONProperty indent (Bool b) = Some (if b then ''true'' else ''false'')"
| "SerializeJSONProperty indent (Num n) = Some (Number_toString n)"
| "SerializeJSONProperty indent (Str s) = Some (QuoteJSONString s)"
| "SerializeJSONProperty indent (Arr xs) =
     (let partial = map (\<lambda>v. case SerializeJSONProperty (indent @ gap) v of
                                 None \<Rightarrow> ''null'' | Some t \<Rightarrow> t) xs
      in Some (if partial = [] then ''[]''
               else ''['' @ newline @ (indent @ gap)
                    @ join ('','' @ newline @ (indent @ gap)) partial
                    @ newline @ indent @ '']''))"
| "SerializeJSONProperty indent (Obj ps) =
     (let partial = concat (map (\<lambda>p. case SerializeJSONProperty (indent @ gap) (snd p) of
                                          None \<Rightarrow> []
                                        | Some t \<Rightarrow> [QuoteJSONString (fst p) @ '': '' @ t]) ps)
      in Some (if partial = [] then ''{}''
               else ''{'' @ newline @ (indent @ gap)
                    @ join ('','' @ newline @ (indent @ gap)) partial
                    @ newline @ indent @ ''}''))"

text \<open>\<open>JSON.stringify(v, null, 2)\<close>: a string, or \<open>undefined\<close> when \<open>v\<close> is.\<close>

definition JSON_stringify :: "jsval \<Rightarrow> jsval" where
  "JSON_stringify v = (case SerializeJSONProperty [] v of None \<Rightarrow> Undefined | Some t \<Rightarrow> Str t)"

section \<open>The remote client\<close>

text \<open>
  The remote ERP client (\<open>fields_get\<close>, \<open>search_read\<close>) is an external collaborator: a call
  either resolves to a response object with an optional \<open>result\<close> property, or rejects. What
  it answers may depend on everything asked before, so the remote is a function of the
  history of calls and of the call. The history also records which calls were issued.
\<close>

datatype rpc_call =
    Fields_get string string
  | Search_read string jsval string

type_synonym remote = "rpc_call list \<Rightarrow> rpc_call \<Rightarrow> js_error + jsval"

text \<open>
  The observable state outside the data: the calls issued to the remote so far, and the
  lines written by \<open>console.error\<close> (message and error).
\<close>

record io =
  calls :: "rpc_call list"
  console_error :: "(string \<times> js_error) list"

text \<open>
  \<open>await fields_get(model, {context: {tz}})\<close> and \<open>await search_read(model, params,
  {context: {tz}})\<close>: the response's \<open>result\<close> property (\<open>Undefined\<close> when the response has
  none), or the rejection; the call is recorded.
\<close>

definition fields_get :: "remote \<Rightarrow> string \<Rightarrow> string \<Rightarrow> io \<Rightarrow> (js_error + jsval) \<times> io" where
  "fields_get remote m tz s =
     (remote (calls s) (Fields_get m tz), s\<lparr>calls := calls s @ [Fields_get m tz]\<rparr>)"

definition search_read :: "remote \<Rightarrow> string \<Rightarrow> jsval \<Rightarrow> string \<Rightarrow> io \<Rightarrow> (js_error + jsval) \<times> io" where
  "search_read remote m params tz s =
     (remote (calls s) (Search_read m params tz), s\<lparr>calls := calls s @ [Search_read m params tz]\<rparr>)"

section \<open>The glossary (glossary.ts)\<close>

datatype fields_source_t = Dynamic | Static

text \<open>
  The interface \<open>GlossaryEntry\<close>. Its property \<open>fields\<close> is written \<open>fields'\<close> here.
\<close>

record GlossaryEntry =
  model :: string
  aliases :: "string list option"
  category :: "string option"
  description :: "string option"
  extra_description :: "string option"
  available_actions :: "string list option"
  model_specific_actions :: "jsval option"
  aliases_many2one_fields :: "string list option"
  fields_source :: "fields_source_t option"
  fields' :: "jsval option"
  examples :: "jsval list option"
  hints :: "string list option"

text \<open>
  The body of the loop of \<open>loadGlossary\<close>, for one entry. The \<open>try\<close> block fetches and
  assigns \<open>entry.fields = res.result ?? {}\<close>; the \<open>catch\<close> block writes one line to
  \<open>console.error\<close> and does nothing else. A result \<open>Inl\<close> would be an error leaving the loop.
\<close>

definition loadGlossary_body ::
    "remote \<Rightarrow> GlossaryEntry \<Rightarrow> io \<Rightarrow> js_error + (GlossaryEntry \<times> io)" where
  "loadGlossary_body remote entry s =
     (if fields_source entry = Some Dynamic then
        (case fields_get remote (model entry) ''UTC'' s of
           (Inr res, s') \<Rightarrow> Inr (entry\<lparr>fields' := Some (nullish res (Obj []))\<rparr>, s')
         | (Inl error, s') \<Rightarrow>
             Inr (entry,
                  s'\<lparr>console_error := console_error s' @
                       [(''Error fetching fields for model '' @ model entry @ '':'', error)]\<rparr>))
      else Inr (entry, s))"

text \<open>
  \<open>for (const entry of glossary) { ... }\<close>: the entries of a catalog are distinct objects
  (a catalog is keyed by \<open>model\<close>), updated in place in the order of the array; the array
  itself is what is returned.
\<close>

fun loadGlossary_loop ::
    "remote \<Rightarrow> GlossaryEntry list \<Rightarrow> io \<Rightarrow> js_error + (GlossaryEntry list \<times> io)" where
  "loadGlossary_loop remote [] s = Inr ([], s)"
| "loadGlossary_loop remote (entry # rest) s =
     (case loadGlossary_body remote entry s of
        Inl e \<Rightarrow> Inl e
      | Inr (entry', s') \<Rightarrow>
          (case loadGlossary_loop remote rest s' of
             Inl e \<Rightarrow> Inl e
           | Inr (rest', s'') \<Rightarrow> Inr (entry' # rest', s'')))"

definition loadGlossary ::
    "remote \<Rightarrow> GlossaryEntry list \<Rightarrow> io \<Rightarrow> js_error + (GlossaryEntry list \<times> io)" where
  "loadGlossary remote glossary s = loadGlossary_loop remote glossary s"

section \<open>The server (server.ts)\<close>

record OdxInstanceInfo =
  url :: string
  user_id :: int
  db :: string
  api_key :: string

text \<open>The interface \<open>OdxProxyClientInfo\<close>; its property \<open>instance\<close> is written \<open>instance'\<close>.\<close>

record OdxProxyClientInfo =
  instance' :: OdxInstanceInfo
  odx_api_key :: string
  gateway_url :: "string option"

text \<open>What every tool handler returns: \<open>{content: [{type: "text", text: t}]}\<close>.\<close>

definition text_content :: "jsval \<Rightarrow> jsval" where
  "text_content t = Obj [(''content'', Arr [Obj [(''type'', Str ''text''), (''text'', t)]])]"

subsection \<open>The tool \<open>odx_config\<close>\<close>

definition odx_config :: "OdxProxyClientInfo \<Rightarrow> jsval" where
  "odx_config OdxConfig =
     (let settings = Obj
            [(''url'', Str (url (instance' OdxConfig))),
             (''database'', Str (db (instance' OdxConfig))),
             (''gateway'', (case gateway_url OdxConfig of None \<Rightarrow> Undefined | Some g \<Rightarrow> Str g)),
             (''userUid'', Num (user_id (instance' OdxConfig)))]
      in text_content (JSON_stringify settings))"

subsection \<open>The tool \<open>get_companies\<close>\<close>

definition get_companies ::
    "remote \<Rightarrow> string option \<Rightarrow> int option \<Rightarrow> io \<Rightarrow> (js_error + jsval) \<times> io" where
  "get_companies remote name id' s =
     (let domain = [];
          domain = (case truthy_str name of
                      Some n \<Rightarrow> domain @ [Arr [Str ''name'', Str ''ilike'', Str n]]
                    | None \<Rightarrow> domain);
          domain = (case truthy_num id' of
                      Some i \<Rightarrow> domain @ [Arr [Str ''id'', Str ''='', Num i]]
                    | None \<Rightarrow> domain)
      in case search_read remote ''res.company'' (Arr [Arr domain]) ''Asia/Singapore'' s of
           (Inl e, s') \<Rightarrow> (Inl e, s')
         | (Inr results, s') \<Rightarrow>
             (Inr (text_content (JSON_stringify (nullish results (Arr [])))), s'))"

subsection \<open>The tool \<open>get_partners\<close>\<close>

text \<open>The part of the handler after the filter is chosen: the query and its answer.\<close>

definition get_partners_query ::
    "remote \<Rightarrow> jsval \<Rightarrow> io \<Rightarrow> (js_error + jsval) \<times> io" where
  "get_partners_query remote domain s =
     (case search_read remote ''res.partner'' domain ''Asia/Singapore'' s of
        (Inl e, s') \<Rightarrow> (Inl e, s')
      | (Inr partners, s') \<Rightarrow>
          (Inr (text_content (JSON_stringify (nullish partners (Arr [])))), s'))"

text \<open>
  The chain \<open>if (id) ... else if (email && name) ... else if (email) ... else if (name) ...
  else return\<close>, in this order.
\<close>

definition get_partners ::
    "remote \<Rightarrow> int option \<Rightarrow> string option \<Rightarrow> string option \<Rightarrow> io \<Rightarrow> (js_error + jsval) \<times> io" where
  "get_partners remote id' email name s =
     (case truthy_num id' of
        Some i \<Rightarrow> get_partners_query remote (Arr [Arr [Str ''id'', Str ''='', Num i]]) s
      | None \<Rightarrow>
          (case (truthy_str email, truthy_str name) of
             (Some e, Some n) \<Rightarrow>
               get_partners_query remote
                 (Arr [Str ''|'', Arr [Str ''email'', Str ''='', Str (toLowerCase e)],
                       Arr [Str ''name'', Str ''ilike'', Str n]]) s
           | (Some e, None) \<Rightarrow>
               get_partners_query remote (Arr [Arr [Str ''email'', Str ''='', Str (toLowerCase e)]]) s
           | (None, Some n) \<Rightarrow>
               get_partners_query remote (Arr [Arr [Str ''name'', Str ''ilike'', Str n]]) s
           | (None, None) \<Rightarrow> (Inr (text_content (Str ''[]'')), s)))"

subsection \<open>The tools behind their input schemas\<close>

text \<open>
  A tool is called through its input schema: arguments that the schema refuses never reach
  the handler, and the call fails with the protocol's invalid-parameters error (its message
  is shortened here). The arguments below already have the declared types (\<open>z.number()\<close>,
  \<open>z.string()\<close>, each optional), so the only check left is the pattern of
  \<open>z.string().email()\<close> on the \<open>email\<close> of \<open>get_partners\<close>. That pattern belongs to the schema
  library, not to this repository: it is the parameter \<open>z_email\<close>. The schema of
  \<open>get_companies\<close> has no pattern, so every typed input reaches its handler.
\<close>

definition get_partners_tool ::
    "(string \<Rightarrow> bool) \<Rightarrow> remote \<Rightarrow> int option \<Rightarrow> string option \<Rightarrow> string option \<Rightarrow> io
       \<Rightarrow> (js_error + jsval) \<times> io" where
  "get_partners_tool z_email remote id' email name s =
     (case email of
        None \<Rightarrow> get_partners remote id' email name s
      | Some e \<Rightarrow>
          if z_email e then get_partners remote id' email name s
          else (Inl (JsError ''Invalid arguments for tool get_partners''), s))"

definition get_companies_tool ::
    "remote \<Rightarrow> string option \<Rightarrow> int option \<Rightarrow> io \<Rightarrow> (js_error + jsval) \<times> io" where
  "get_companies_tool remote name id' s = get_companies remote name id' s"

subsection \<open>Glossary resources\<close>

text \<open>
  A registered resource: the registration name, the URI, the descriptor, and the entry that
  the content callback holds and serializes when the resource is read.
\<close>

record registered_resource =
  reg_name :: string
  reg_uri :: string
  reg_config :: jsval
  reg_entry :: GlossaryEntry

text \<open>
  \<open>McpServer.registerResource\<close> belongs to the protocol SDK, an external collaborator. The
  registry is keyed by URI: a URI that is already registered is refused with an error,
  any other registration is added.
\<close>

definition registerResource ::
    "registered_resource \<Rightarrow> registered_resource list \<Rightarrow> js_error + registered_resource list" where
  "registerResource r regs =
     (if reg_uri r \<in> set (map reg_uri regs)
      then Inl (JsError (''Resource '' @ reg_uri r @ '' is already registered''))
      else Inr (regs @ [r]))"

text \<open>The registration that \<open>loadGlossaries\<close> builds for one entry.\<close>

definition glossary_resource :: "GlossaryEntry \<Rightarrow> registered_resource" where
  "glossary_resource entry =
     \<lparr>reg_name = ''glossary_'' @ model entry,
      reg_uri = ''glossary://'' @ model entry,
      reg_config = Obj
        [(''title'', Str (model entry @ '' Glossary'')),
         (''description'', Str (nullish_opt (description entry) [])),
         (''tags'', Arr (map Str (nullish_opt (category entry) ''odoo'' #
                                  nullish_opt (aliases entry) []))),
         (''examples'', Arr (nullish_opt (examples entry) [])),
         (''parameters'', Obj [])],
      reg_entry = entry\<rparr>"

fun loadGlossaries_loop ::
    "GlossaryEntry list \<Rightarrow> registered_resource list \<Rightarrow> js_error + registered_resource list" where
  "loadGlossaries_loop [] regs = Inr regs"
| "loadGlossaries_loop (entry # rest) regs =
     (case registerResource (glossary_resource entry) regs of
        Inl e \<Rightarrow> Inl e
      | Inr regs' \<Rightarrow> loadGlossaries_loop rest regs')"

text \<open>
  \<open>loadGlossaries(glossary)\<close>: an absent glossary is enriched to the empty list; an array,
  also an empty one, is truthy. The state is the server's resource registry and the
  observable state.
\<close>

definition loadGlossaries ::
    "remote \<Rightarrow> GlossaryEntry list option \<Rightarrow> registered_resource list \<Rightarrow> io
       \<Rightarrow> js_error + (registered_resource list \<times> io)" where
  "loadGlossaries remote glossary regs s =
     (case (case glossary of
              None \<Rightarrow> Inr ([], s)
            | Some g \<Rightarrow> loadGlossary remote g s) of
        Inl e \<Rightarrow> Inl e
      | Inr (enrichedGlossary, s') \<Rightarrow>
          (case loadGlossaries_loop enrichedGlossary regs of
             Inl e \<Rightarrow> Inl e
           | Inr regs' \<Rightarrow> Inr (regs', s')))"

section \<open>Derived notions and sample data\<close>

text \<open>
  What the remote answers to the fetch for the entry at position \<open>i\<close> of a catalog: the
  answer to \<open>fields_get\<close> for its model, in the history reached once the loop has run over
  the \<open>i\<close> entries before it.
\<close>

definition fetch_at :: "remote \<Rightarrow> GlossaryEntry list \<Rightarrow> io \<Rightarrow> nat \<Rightarrow> js_error + jsval" where
  "fetch_at remote C s i =
     (case loadGlossary remote (take i C) s of
        Inl e \<Rightarrow> Inl e
      | Inr (done, si) \<Rightarrow> remote (calls si) (Fields_get (model (C ! i)) ''UTC''))"

definition io_start :: io where
  "io_start = \<lparr>calls = [], console_error = []\<rparr>"

definition blank_entry :: "string \<Rightarrow> GlossaryEntry" where
  "blank_entry m =
     \<lparr>model = m, aliases = None, category = None, description = None,
      extra_description = None, available_actions = None, model_specific_actions = None,
      aliases_many2one_fields = None, fields_source = None, fields' = None,
      examples = None, hints = None\<rparr>"

text \<open>The catalog \<open>[A, M, B]\<close>: a static entry with authored fields and two dynamic ones.\<close>

definition company_fields :: jsval where
  "company_fields = Obj [(''name'', Obj [(''type'', Str ''char'')])]"

definition entry_company :: GlossaryEntry where
  "entry_company = (blank_entry ''res.company'')\<lparr>fields_source := Some Static,
                                                fields' := Some company_fields\<rparr>"

definition entry_partner :: GlossaryEntry where
  "entry_partner = (blank_entry ''res.partner'')\<lparr>fields_source := Some Dynamic\<rparr>"

definition entry_order :: GlossaryEntry where
  "entry_order = (blank_entry ''sale.order'')\<lparr>fields_source := Some Dynamic,
                                             fields' := Some company_fields\<rparr>"

definition catalog_AMB :: "GlossaryEntry list" where
  "catalog_AMB = [entry_company, entry_partner, entry_order]"

definition order_fields :: jsval where
  "order_fields = Obj [(''amount_total'', Obj [(''type'', Str ''monetary'')])]"

text \<open>
  A remote that rejects every fetch, and one that rejects the fetch for \<open>res.partner\<close> only
  and answers every other call with the fields of \<open>sale.order\<close>.
\<close>

definition remote_down :: remote where
  "remote_down = (\<lambda>history call. Inl (JsError ''connect ECONNREFUSED''))"

definition remote_partner_down :: remote where
  "remote_partner_down =
     (\<lambda>history call. if call = Fields_get ''res.partner'' ''UTC''
                      then Inl (JsError ''connect ECONNREFUSED'') else Inr order_fields)"

text \<open>A remote that answers every call with an empty list.\<close>

definition remote_no_match :: remote where
  "remote_no_match = (\<lambda>history call. Inr (Arr []))"

text \<open>
  For concrete runs of \<open>get_partners_tool\<close>, an e-mail check that demands an \<open>@\<close>, as every
  e-mail pattern does; in particular it refuses the empty string.
\<close>

definition email_with_at :: "string \<Rightarrow> bool" where
  "email_with_at e = (CHR ''@'' \<in> set e)"

section \<open>The enrichment loop\<close>

lemma loadGlossary_body_cases:
  "loadGlossary_body remote e s =
     (if fields_source e = Some Dynamic then
        (case remote (calls s) (Fields_get (model e) ''UTC'') of
           Inr res \<Rightarrow> Inr (e\<lparr>fields' := Some (nullish res (Obj []))\<rparr>,
                          s\<lparr>calls := calls s @ [Fields_get (model e) ''UTC'']\<rparr>)
         | Inl err \<Rightarrow> Inr (e, s\<lparr>calls := calls s @ [Fields_get (model e) ''UTC''],
                               console_error := console_error s @
                                 [(''Error fetching fields for model '' @ model e @ '':'', err)]\<rparr>))
      else Inr (e, s))"
  by (simp add: loadGlossary_body_def fields_get_def split: sum.split)

lemma loadGlossary_body_total:
  "\<exists>e' s'. loadGlossary_body remote e s = Inr (e', s')"
  by (simp add: loadGlossary_body_cases split: sum.split)

lemma loadGlossary_body_model:
  "loadGlossary_body remote e s = Inr (e', s') \<Longrightarrow> model e' = model e"
  by (auto simp: loadGlossary_body_cases split: if_splits sum.splits)

lemma loadGlossary_loop_total:
  "\<exists>g' s'. loadGlossary_loop remote g s = Inr (g', s')"
proof (induction g arbitrary: s)
  case Nil
  show ?case by simp
next
  case (Cons e g)
  obtain e' s1 where b: "loadGlossary_body remote e s = Inr (e', s1)"
    using loadGlossary_body_total by blast
  obtain g' s2 where l: "loadGlossary_loop remote g s1 = Inr (g', s2)"
    using Cons.IH by blast
  show ?case by (simp add: b l)
qed

lemma loadGlossary_loop_Cons:
  assumes "loadGlossary_loop remote (e # g) s = Inr (r, s')"
  obtains e' s1 g' where "loadGlossary_body remote e s = Inr (e', s1)"
    and "loadGlossary_loop remote g s1 = Inr (g', s')" and "r = e' # g'"
  using assms by (auto split: sum.splits prod.splits)

lemma loadGlossary_loop_models:
  "loadGlossary_loop remote g s = Inr (g', s') \<Longrightarrow> map model g' = map model g"
proof (induction g arbitrary: s g')
  case Nil
  then show ?case by simp
next
  case (Cons e g)
  from Cons.prems obtain e' s1 r where b: "loadGlossary_body remote e s = Inr (e', s1)"
    and l: "loadGlossary_loop remote g s1 = Inr (r, s')" and g': "g' = e' # r"
    by (rule loadGlossary_loop_Cons)
  show ?case using Cons.IH [OF l] loadGlossary_body_model [OF b] g' by simp
qed

lemma loadGlossary_body_calls:
  "loadGlossary_body remote e s = Inr (e', s') \<Longrightarrow>
     calls s' = calls s @ (if fields_source e = Some Dynamic
                           then [Fields_get (model e) ''UTC''] else [])"
  by (auto simp: loadGlossary_body_cases split: if_splits sum.splits)

lemma loadGlossary_body_console:
  "loadGlossary_body remote e s = Inr (e', s') \<Longrightarrow>
     set (console_error s) \<subseteq> set (console_error s')"
  by (auto simp: loadGlossary_body_cases split: if_splits sum.splits)

lemma loadGlossary_loop_calls:
  "loadGlossary_loop remote g s = Inr (g', s') \<Longrightarrow>
     calls s' = calls s @ map (\<lambda>e. Fields_get (model e) ''UTC'')
                            (filter (\<lambda>e. fields_source e = Some Dynamic) g)"
proof (induction g arbitrary: s g')
  case Nil
  then show ?case by simp
next
  case (Cons e g)
  from Cons.prems obtain e' s1 r where b: "loadGlossary_body remote e s = Inr (e', s1)"
    and l: "loadGlossary_loop remote g s1 = Inr (r, s')" and g': "g' = e' # r"
    by (rule loadGlossary_loop_Cons)
  show ?case using Cons.IH [OF l] loadGlossary_body_calls [OF b] by simp
qed

lemma loadGlossary_loop_console:
  "loadGlossary_loop remote g s = Inr (g', s') \<Longrightarrow>
     set (console_error s) \<subseteq> set (console_error s')"
proof (induction g arbitrary: s g')
  case Nil
  then show ?case by simp
next
  case (Cons e g)
  from Cons.prems obtain e' s1 r where b: "loadGlossary_body remote e s = Inr (e', s1)"
    and l: "loadGlossary_loop remote g s1 = Inr (r, s')" and g': "g' = e' # r"
    by (rule loadGlossary_loop_Cons)
  show ?case using Cons.IH [OF l] loadGlossary_body_console [OF b] by blast
qed

text \<open>
  The step of the loop at position \<open>i\<close>: the loop over the entries before it ends in some
  state, from which the body turns entry \<open>i\<close> into the entry found at \<open>i\<close> in the result.
\<close>

lemma loadGlossary_loop_nth:
  assumes "loadGlossary_loop remote g s = Inr (g', s')" and "i < length g"
  shows "\<exists>gi si s1. loadGlossary_loop remote (take i g) s = Inr (gi, si)
           \<and> loadGlossary_body remote (g ! i) si = Inr (g' ! i, s1)
           \<and> set (console_error s1) \<subseteq> set (console_error s')"
  using assms
proof (induction g arbitrary: s g' i)
  case Nil
  then show ?case by simp
next
  case (Cons e g)
  from Cons.prems(1) obtain e' s1 r where b: "loadGlossary_body remote e s = Inr (e', s1)"
    and l: "loadGlossary_loop remote g s1 = Inr (r, s')" and g': "g' = e' # r"
    by (rule loadGlossary_loop_Cons)
  show ?case
  proof (cases i)
    case 0
    have "set (console_error s1) \<subseteq> set (console_error s')"
      using l by (rule loadGlossary_loop_console)
    with b g' 0 show ?thesis by simp
  next
    case (Suc j)
    with Cons.prems(2) have j: "j < length g" by simp
    from Cons.IH [OF l j] obtain gj sj s2
      where p: "loadGlossary_loop remote (take j g) s1 = Inr (gj, sj)"
        and q: "loadGlossary_body remote (g ! j) sj = Inr (r ! j, s2)"
        and c: "set (console_error s2) \<subseteq> set (console_error s')"
      by blast
    have "loadGlossary_loop remote (take i (e # g)) s = Inr (e' # gj, sj)"
      using Suc b p by simp
    with q c g' Suc show ?thesis by simp
  qed
qed

lemma fetch_at_step:
  assumes "loadGlossary_loop remote (take i C) s = Inr (gi, si)"
  shows "fetch_at remote C s i = remote (calls si) (Fields_get (model (C ! i)) ''UTC'')"
  using assms by (simp add: fetch_at_def loadGlossary_def)

section \<open>Properties of the enrichment\<close>

text \<open>
  C3: for every catalog \<open>C\<close>, \<open>loadGlossary\<close> resolves to a sequence of the same length as
  \<open>C\<close>, whose \<open>model\<close> identifiers are those of \<open>C\<close> in the same order.
\<close>

theorem loadGlossary_preserves_catalog:
  "\<exists>g' s'. loadGlossary remote C s = Inr (g', s')
     \<and> length g' = length C \<and> map model g' = map model C"
proof -
  obtain g' s' where l: "loadGlossary_loop remote C s = Inr (g', s')"
    using loadGlossary_loop_total by blast
  have m: "map model g' = map model C" using l by (rule loadGlossary_loop_models)
  have "length g' = length C" using m by (metis length_map)
  with l m show ?thesis by (simp add: loadGlossary_def)
qed

text \<open>
  C4: an entry whose \<open>fields_source\<close> is not \<open>"dynamic"\<close> (absent, or \<open>"static"\<close> with
  authored fields) is returned entirely unchanged, at its position, and no fetch is issued
  for it: the calls issued by \<open>loadGlossary\<close> are exactly one \<open>fields_get\<close> per dynamic entry,
  in catalog order.
\<close>

theorem loadGlossary_leaves_static_entries:
  "\<exists>g' s'. loadGlossary remote C s = Inr (g', s')
     \<and> (\<forall>i<length C. fields_source (C ! i) \<noteq> Some Dynamic \<longrightarrow> g' ! i = C ! i)
     \<and> calls s' = calls s @ map (\<lambda>e. Fields_get (model e) ''UTC'')
                               (filter (\<lambda>e. fields_source e = Some Dynamic) C)"
proof -
  obtain g' s' where l: "loadGlossary_loop remote C s = Inr (g', s')"
    using loadGlossary_loop_total by blast
  have "g' ! i = C ! i" if "i < length C" and "fields_source (C ! i) \<noteq> Some Dynamic" for i
  proof -
    from loadGlossary_loop_nth [OF l that(1)] obtain si s1
      where "loadGlossary_body remote (C ! i) si = Inr (g' ! i, s1)" by blast
    with that(2) show ?thesis by (simp add: loadGlossary_body_cases)
  qed
  moreover note loadGlossary_loop_calls [OF l]
  ultimately show ?thesis using l by (simp add: loadGlossary_def)
qed

text \<open>
  The static entry \<open>res.company\<close> in front of a dynamic one: it comes back as it was, with
  its authored fields, and the only call is the fetch for \<open>res.partner\<close>.
\<close>

theorem loadGlossary_leaves_static_entries_witness:
  "fields_source (([entry_company, entry_partner]) ! 0) \<noteq> Some Dynamic
   \<and> (\<exists>g' s'. loadGlossary remote_down [entry_company, entry_partner] io_start = Inr (g', s')
        \<and> g' ! 0 = entry_company \<and> fields' (g' ! 0) = Some company_fields
        \<and> calls s' = [Fields_get ''res.partner'' ''UTC''])"
  using loadGlossary_leaves_static_entries [of remote_down "[entry_company, entry_partner]" io_start]
  by (auto simp: entry_company_def entry_partner_def blank_entry_def io_start_def)

text \<open>
  C1, as amended: when the fetch for a dynamic entry rejects, the entry's \<open>fields\<close> after
  \<open>loadGlossary\<close> is exactly what it was before the call: absent if it was absent, the
  earlier value if one was set.
\<close>

theorem loadGlossary_failed_fetch_keeps_fields:
  assumes "i < length C" and "fields_source (C ! i) = Some Dynamic"
    and "fetch_at remote C s i = Inl err"
  shows "\<exists>g' s'. loadGlossary remote C s = Inr (g', s') \<and> fields' (g' ! i) = fields' (C ! i)"
proof -
  obtain g' s' where l: "loadGlossary_loop remote C s = Inr (g', s')"
    using loadGlossary_loop_total by blast
  from loadGlossary_loop_nth [OF l assms(1)] obtain gi si s1
    where p: "loadGlossary_loop remote (take i C) s = Inr (gi, si)"
      and b: "loadGlossary_body remote (C ! i) si = Inr (g' ! i, s1)" by blast
  have "remote (calls si) (Fields_get (model (C ! i)) ''UTC'') = Inl err"
    using fetch_at_step [OF p] assms(3) by simp
  with b assms(2) have "g' ! i = C ! i" by (simp add: loadGlossary_body_cases)
  with l show ?thesis by (simp add: loadGlossary_def)
qed


text \<open>In the catalog \<open>[A, M, B]\<close> the fetch for \<open>M = res.partner\<close> rejects; its fields stay absent.\<close>

theorem loadGlossary_failed_fetch_keeps_fields_witness:
  "(1::nat) < length catalog_AMB \<and> fields_source (catalog_AMB ! 1) = Some Dynamic
   \<and> fetch_at remote_partner_down catalog_AMB io_start 1 = Inl (JsError ''connect ECONNREFUSED'')
   \<and> (\<exists>g' s'. loadGlossary remote_partner_down catalog_AMB io_start = Inr (g', s')
          \<and> fields' (g' ! 1) = None)"
proof -
  have h1: "(1::nat) < length catalog_AMB" by (simp add: catalog_AMB_def)
  have h2: "fields_source (catalog_AMB ! 1) = Some Dynamic"
    by (simp add: catalog_AMB_def entry_partner_def)
  have h3: "fetch_at remote_partner_down catalog_AMB io_start 1
              = Inl (JsError ''connect ECONNREFUSED'')"
    by (simp add: fetch_at_def loadGlossary_def loadGlossary_body_cases catalog_AMB_def
          entry_company_def entry_partner_def blank_entry_def remote_partner_down_def)
  have "fields' (catalog_AMB ! 1) = None"
    by (simp add: catalog_AMB_def entry_partner_def blank_entry_def)
  with h1 h2 h3 loadGlossary_failed_fetch_keeps_fields [OF h1 h2 h3] show ?thesis by simp
qed

text \<open>
  C1 as stated fails: the catalog with the single dynamic entry \<open>res.partner\<close>, without
  fields, against a remote that rejects. The call resolves, one line is written to
  \<open>console.error\<close>, and the entry comes back with \<open>fields\<close> still absent, not an empty
  mapping.
\<close>

theorem loadGlossary_failed_fetch_counterexample:
  "fields_source entry_partner = Some Dynamic
   \<and> fetch_at remote_down [entry_partner] io_start 0 = Inl (JsError ''connect ECONNREFUSED'')
   \<and> loadGlossary remote_down [entry_partner] io_start =
        Inr ([entry_partner],
             \<lparr>calls = [Fields_get ''res.partner'' ''UTC''],
              console_error = [(''Error fetching fields for model res.partner:'',
                                JsError ''connect ECONNREFUSED'')]\<rparr>)
   \<and> fields' entry_partner = None
   \<and> fields' entry_partner \<noteq> Some (Obj [])"
  by (simp add: fetch_at_def loadGlossary_def loadGlossary_body_cases entry_partner_def
        blank_entry_def remote_down_def io_start_def)

text \<open>
  C2: for every catalog, \<open>loadGlossary\<close> resolves whatever the remote does. A dynamic entry
  whose fetch rejects leaves a line in \<open>console.error\<close> naming its model, and the loop goes
  on: every dynamic entry whose own fetch resolves holds its own fetched result (or the empty
  mapping when the response carries none).
\<close>

theorem loadGlossary_isolates_failures:
  "\<exists>g' s'. loadGlossary remote C s = Inr (g', s')
     \<and> (\<forall>i<length C. fields_source (C ! i) = Some Dynamic \<longrightarrow>
           (\<forall>res. fetch_at remote C s i = Inr res \<longrightarrow>
                    fields' (g' ! i) = Some (nullish res (Obj [])))
         \<and> (\<forall>err. fetch_at remote C s i = Inl err \<longrightarrow>
                    (''Error fetching fields for model '' @ model (C ! i) @ '':'', err)
                      \<in> set (console_error s')))"
proof -
  obtain g' s' where l: "loadGlossary_loop remote C s = Inr (g', s')"
    using loadGlossary_loop_total by blast
  have "(\<forall>res. fetch_at remote C s i = Inr res \<longrightarrow>
                 fields' (g' ! i) = Some (nullish res (Obj [])))
      \<and> (\<forall>err. fetch_at remote C s i = Inl err \<longrightarrow>
                 (''Error fetching fields for model '' @ model (C ! i) @ '':'', err)
                   \<in> set (console_error s'))"
    if i: "i < length C" and d: "fields_source (C ! i) = Some Dynamic" for i
  proof -
    from loadGlossary_loop_nth [OF l i] obtain gi si s1
      where p: "loadGlossary_loop remote (take i C) s = Inr (gi, si)"
        and b: "loadGlossary_body remote (C ! i) si = Inr (g' ! i, s1)"
        and c: "set (console_error s1) \<subseteq> set (console_error s')" by blast
    note f = fetch_at_step [OF p]
    show ?thesis
    proof (cases "remote (calls si) (Fields_get (model (C ! i)) ''UTC'')")
      case (Inr res)
      with b d have "g' ! i = (C ! i)\<lparr>fields' := Some (nullish res (Obj []))\<rparr>"
        by (simp add: loadGlossary_body_cases)
      then have "fields' (g' ! i) = Some (nullish res (Obj []))" by simp
      with f Inr show ?thesis by simp
    next
      case (Inl err)
      with b d have "(''Error fetching fields for model '' @ model (C ! i) @ '':'', err)
                       \<in> set (console_error s1)"
        by (auto simp: loadGlossary_body_cases)
      with c f Inl show ?thesis by auto
    qed
  qed
  with l show ?thesis by (simp add: loadGlossary_def)
qed

text \<open>
  In the catalog \<open>[A, M, B]\<close> the fetch for \<open>M = res.partner\<close> rejects and the one for
  \<open>B = sale.order\<close> resolves: \<open>B\<close> holds the fetched fields, and the failure is recorded.
\<close>

theorem loadGlossary_isolates_failures_witness:
  "fields_source (catalog_AMB ! 1) = Some Dynamic \<and> fields_source (catalog_AMB ! 2) = Some Dynamic
   \<and> fetch_at remote_partner_down catalog_AMB io_start 1 = Inl (JsError ''connect ECONNREFUSED'')
   \<and> fetch_at remote_partner_down catalog_AMB io_start 2 = Inr order_fields
   \<and> (\<exists>g' s'. loadGlossary remote_partner_down catalog_AMB io_start = Inr (g', s')
          \<and> fields' (g' ! 2) = Some order_fields
          \<and> (''Error fetching fields for model res.partner:'', JsError ''connect ECONNREFUSED'')
               \<in> set (console_error s'))"
proof -
  have len: "length catalog_AMB = 3" by (simp add: catalog_AMB_def)
  have d1: "fields_source (catalog_AMB ! 1) = Some Dynamic"
    and d2: "fields_source (catalog_AMB ! 2) = Some Dynamic"
    and m1: "model (catalog_AMB ! 1) = ''res.partner''"
    by (simp_all add: catalog_AMB_def entry_partner_def entry_order_def blank_entry_def)
  have f1: "fetch_at remote_partner_down catalog_AMB io_start 1
              = Inl (JsError ''connect ECONNREFUSED'')"
    by (simp add: fetch_at_def loadGlossary_def loadGlossary_body_cases catalog_AMB_def
          entry_company_def entry_partner_def blank_entry_def remote_partner_down_def)
  have f2: "fetch_at remote_partner_down catalog_AMB io_start 2 = Inr order_fields"
    by (simp add: fetch_at_def loadGlossary_def loadGlossary_body_cases catalog_AMB_def
          entry_company_def entry_partner_def entry_order_def blank_entry_def
          remote_partner_down_def numeral_2_eq_2)
  have n: "nullish order_fields (Obj []) = order_fields" by (simp add: order_fields_def)
  from loadGlossary_isolates_failures [of remote_partner_down catalog_AMB io_start]
  obtain g' s' where r: "loadGlossary remote_partner_down catalog_AMB io_start = Inr (g', s')"
    and a: "\<forall>i<length catalog_AMB. fields_source (catalog_AMB ! i) = Some Dynamic \<longrightarrow>
           (\<forall>res. fetch_at remote_partner_down catalog_AMB io_start i = Inr res \<longrightarrow>
                    fields' (g' ! i) = Some (nullish res (Obj [])))
         \<and> (\<forall>err. fetch_at remote_partner_down catalog_AMB io_start i = Inl err \<longrightarrow>
                    (''Error fetching fields for model '' @ model (catalog_AMB ! i) @ '':'', err)
                      \<in> set (console_error s'))"
    by blast
  from a [rule_format, of 2] len d2 f2 n have "fields' (g' ! 2) = Some order_fields" by simp
  moreover from a [rule_format, of 1] len d1 f1 m1
  have "(''Error fetching fields for model res.partner:'', JsError ''connect ECONNREFUSED'')
          \<in> set (console_error s')" by simp
  ultimately show ?thesis using r d1 d2 f1 f2 by blast
qed

section \<open>Properties of the resource publication\<close>

lemma glossary_resource_simps:
  "reg_name (glossary_resource e) = ''glossary_'' @ model e"
  "reg_uri (glossary_resource e) = ''glossary://'' @ model e"
  "reg_entry (glossary_resource e) = e"
  by (simp_all add: glossary_resource_def)

lemma loadGlossaries_loop_fresh:
  assumes "distinct (map model g)"
    and "\<forall>e\<in>set g. ''glossary://'' @ model e \<notin> set (map reg_uri regs)"
  shows "loadGlossaries_loop g regs = Inr (regs @ map glossary_resource g)"
  using assms
proof (induction g arbitrary: regs)
  case Nil
  show ?case by simp
next
  case (Cons e g)
  let ?r = "glossary_resource e"
  have new: "reg_uri ?r \<notin> set (map reg_uri regs)"
    using Cons.prems(2) by (simp add: glossary_resource_simps)
  then have step: "registerResource ?r regs = Inr (regs @ [?r])"
    by (simp add: registerResource_def)
  have d: "distinct (map model g)" using Cons.prems(1) by simp
  have "''glossary://'' @ model x \<notin> set (map reg_uri (regs @ [?r]))" if "x \<in> set g" for x
  proof -
    have "model x \<noteq> model e" using Cons.prems(1) that by (force simp: image_iff)
    moreover have "''glossary://'' @ model x \<notin> set (map reg_uri regs)"
      using Cons.prems(2) that by simp
    ultimately show ?thesis by (simp add: glossary_resource_simps)
  qed
  then have "loadGlossaries_loop g (regs @ [?r]) = Inr ((regs @ [?r]) @ map glossary_resource g)"
    using Cons.IH [OF d] by blast
  with step show ?case by simp
qed

text \<open>
  C5, as amended: for a catalog of length \<open>N\<close> with distinct \<open>model\<close> identifiers, on a
  server whose registry holds none of the catalog's URIs \<open>glossary://<model>\<close> (as the registry
  of a new server), \<open>loadGlossaries\<close> resolves and has added exactly \<open>N\<close> resources, one per
  entry of the enriched catalog in order, whatever the remote did for the dynamic entries:
  each under the name \<open>glossary_<model>\<close> and the URI \<open>glossary://<model>\<close>, the URIs distinct.
\<close>

theorem loadGlossaries_registers_every_entry:
  assumes "distinct (map model C)"
    and "\<forall>e\<in>set C. ''glossary://'' @ model e \<notin> set (map reg_uri regs)"
  shows "\<exists>enriched s' regs'.
           loadGlossary remote C s = Inr (enriched, s')
         \<and> loadGlossaries remote (Some C) regs s = Inr (regs @ regs', s')
         \<and> length regs' = length C
         \<and> map reg_entry regs' = enriched
         \<and> map reg_name regs' = map (\<lambda>e. ''glossary_'' @ model e) C
         \<and> map reg_uri regs' = map (\<lambda>e. ''glossary://'' @ model e) C
         \<and> distinct (map reg_uri regs')"
proof -
  obtain g' s' where l: "loadGlossary_loop remote C s = Inr (g', s')"
    using loadGlossary_loop_total by blast
  have m: "map model g' = map model C" using l by (rule loadGlossary_loop_models)
  have d: "distinct (map model g')" using m assms(1) by simp
  have f: "\<forall>e\<in>set g'. ''glossary://'' @ model e \<notin> set (map reg_uri regs)"
  proof
    fix e assume "e \<in> set g'"
    then have "model e \<in> set (map model C)" using m by (metis image_eqI set_map)
    then obtain c where "c \<in> set C" and "model c = model e" by auto
    with assms(2) show "''glossary://'' @ model e \<notin> set (map reg_uri regs)" by metis
  qed
  let ?new = "map glossary_resource g'"
  have reg: "loadGlossaries_loop g' regs = Inr (regs @ ?new)"
    using d f by (rule loadGlossaries_loop_fresh)
  have run: "loadGlossaries remote (Some C) regs s = Inr (regs @ ?new, s')"
    by (simp add: loadGlossaries_def loadGlossary_def l reg)
  have len: "length ?new = length C" using m by (metis length_map)
  have ent: "map reg_entry ?new = g'" by (simp add: glossary_resource_simps comp_def)
  have "map reg_name ?new = map (\<lambda>e. ''glossary_'' @ model e) g'"
    by (simp add: glossary_resource_simps comp_def)
  also have "\<dots> = map ((\<lambda>m. ''glossary_'' @ m) \<circ> model) g'" by (simp add: comp_def)
  also have "\<dots> = map (\<lambda>m. ''glossary_'' @ m) (map model C)" using m by (metis map_map)
  finally have nm: "map reg_name ?new = map (\<lambda>e. ''glossary_'' @ model e) C"
    by (simp add: comp_def)
  have "map reg_uri ?new = map ((\<lambda>m. ''glossary://'' @ m) \<circ> model) g'"
    by (simp add: glossary_resource_simps comp_def)
  also have "\<dots> = map (\<lambda>m. ''glossary://'' @ m) (map model C)" using m by (metis map_map)
  finally have ur: "map reg_uri ?new = map (\<lambda>m. ''glossary://'' @ m) (map model C)" .
  have "inj_on (\<lambda>m::string. ''glossary://'' @ m) (set (map model C))" by (rule inj_onI) simp
  with assms(1) have "distinct (map (\<lambda>m. ''glossary://'' @ m) (map model C))"
    by (simp only: distinct_map)
  with ur have di: "distinct (map reg_uri ?new)" by simp
  from ur have ur': "map reg_uri ?new = map (\<lambda>e. ''glossary://'' @ model e) C"
    by (simp add: comp_def)
  from l run len ent nm ur' di show ?thesis
    unfolding loadGlossary_def by blast
qed

text \<open>
  The catalog \<open>[A, M, B]\<close> on the empty registry, with the fetch for \<open>M\<close> rejected: three
  resources.
\<close>

theorem loadGlossaries_registers_every_entry_witness:
  "distinct (map model catalog_AMB)
   \<and> set (map reg_uri ([] :: registered_resource list)) = {}
   \<and> (\<exists>s' regs'. loadGlossaries remote_partner_down (Some catalog_AMB) [] io_start = Inr (regs', s')
         \<and> length regs' = 3
         \<and> map reg_name regs' = [''glossary_res.company'', ''glossary_res.partner'', ''glossary_sale.order'']
         \<and> map reg_uri regs' = [''glossary://res.company'', ''glossary://res.partner'', ''glossary://sale.order''])"
proof -
  have h1: "distinct (map model catalog_AMB)"
    by (simp add: catalog_AMB_def entry_company_def entry_partner_def entry_order_def blank_entry_def)
  have h2: "\<forall>e\<in>set catalog_AMB. ''glossary://'' @ model e \<notin> set (map reg_uri [])" by simp
  have a: "map (\<lambda>e. ''glossary_'' @ model e) catalog_AMB
             = [''glossary_res.company'', ''glossary_res.partner'', ''glossary_sale.order'']"
    and b: "map (\<lambda>e. ''glossary://'' @ model e) catalog_AMB
             = [''glossary://res.company'', ''glossary://res.partner'', ''glossary://sale.order'']"
    by (simp_all add: catalog_AMB_def entry_company_def entry_partner_def entry_order_def
          blank_entry_def)
  have len: "length catalog_AMB = 3" by (simp add: catalog_AMB_def)
  from loadGlossaries_registers_every_entry [OF h1 h2, of remote_partner_down io_start]
  obtain enriched s' regs'
    where "loadGlossaries remote_partner_down (Some catalog_AMB) [] io_start = Inr ([] @ regs', s')"
      and "length regs' = length catalog_AMB"
      and "map reg_name regs' = map (\<lambda>e. ''glossary_'' @ model e) catalog_AMB"
      and "map reg_uri regs' = map (\<lambda>e. ''glossary://'' @ model e) catalog_AMB"
    by blast
  then have "loadGlossaries remote_partner_down (Some catalog_AMB) [] io_start = Inr (regs', s')
         \<and> length regs' = 3
         \<and> map reg_name regs' = [''glossary_res.company'', ''glossary_res.partner'', ''glossary_sale.order'']
         \<and> map reg_uri regs' = [''glossary://res.company'', ''glossary://res.partner'', ''glossary://sale.order'']"
    by (simp only: a b len append_Nil simp_thms)
  then have e: "\<exists>s' regs'.
           loadGlossaries remote_partner_down (Some catalog_AMB) [] io_start = Inr (regs', s')
         \<and> length regs' = 3
         \<and> map reg_name regs' = [''glossary_res.company'', ''glossary_res.partner'', ''glossary_sale.order'']
         \<and> map reg_uri regs' = [''glossary://res.company'', ''glossary://res.partner'', ''glossary://sale.order'']"
    by - (rule exI, rule exI, assumption)
  have h2': "set (map reg_uri ([] :: registered_resource list)) = {}" by simp
  show ?thesis by (intro conjI) (rule h1, rule h2', rule e)
qed

text \<open>
  C5 as stated fails on a server that already holds a URI of the catalog: \<open>loadGlossaries\<close>
  called a second time with the one-entry catalog \<open>res.partner\<close>, on the registry and state
  that the first call left. The first call registers the resource; the second is refused by
  the registry and rejects, and no resource is registered by it.
\<close>

theorem loadGlossaries_second_call_counterexample:
  "distinct (map model [entry_partner])
   \<and> loadGlossaries remote_down (Some [entry_partner]) [] io_start
       = Inr ([glossary_resource entry_partner],
              \<lparr>calls = [Fields_get ''res.partner'' ''UTC''],
               console_error = [(''Error fetching fields for model res.partner:'',
                                 JsError ''connect ECONNREFUSED'')]\<rparr>)
   \<and> loadGlossaries remote_down (Some [entry_partner]) [glossary_resource entry_partner]
         \<lparr>calls = [Fields_get ''res.partner'' ''UTC''],
          console_error = [(''Error fetching fields for model res.partner:'',
                            JsError ''connect ECONNREFUSED'')]\<rparr>
       = Inl (JsError ''Resource glossary://res.partner is already registered'')"
  by (simp add: loadGlossaries_def loadGlossary_def loadGlossary_body_cases registerResource_def
        glossary_resource_simps entry_partner_def blank_entry_def remote_down_def io_start_def)

section \<open>Properties of the tool handlers\<close>

lemma get_partners_query_calls:
  "calls (snd (get_partners_query remote d s))
     = calls s @ [Search_read ''res.partner'' d ''Asia/Singapore'']"
  by (simp add: get_partners_query_def search_read_def split: sum.split)

lemma lower_char_not_upper:
  "\<not> (65 \<le> (of_char (lower_char c) :: nat) \<and> (of_char (lower_char c) :: nat) \<le> 90)"
  by (simp add: lower_char_def)

text \<open>
  C6, as amended: whenever \<open>id\<close> is provided and is not \<open>0\<close>, it takes precedence over all
  other inputs: the handler does what it does for that \<open>id\<close> alone, and the one query it
  issues carries exactly the filter \<open>[["id","=",id]]\<close>; \<open>email\<close> and \<open>name\<close> are ignored.
\<close>

theorem get_partners_id_precedence:
  assumes "i \<noteq> 0"
  shows "get_partners remote (Some i) email name s
           = get_partners_query remote (Arr [Arr [Str ''id'', Str ''='', Num i]]) s
       \<and> calls (snd (get_partners remote (Some i) email name s))
           = calls s @ [Search_read ''res.partner'' (Arr [Arr [Str ''id'', Str ''='', Num i]])
                          ''Asia/Singapore'']"
proof -
  have "get_partners remote (Some i) email name s
          = get_partners_query remote (Arr [Arr [Str ''id'', Str ''='', Num i]]) s"
    using assms by (simp add: get_partners_def)
  then show ?thesis by (simp add: get_partners_query_calls)
qed

text \<open>The input \<open>{id: 7, email: "x@y.com", name: "x"}\<close>.\<close>

theorem get_partners_id_precedence_witness:
  "(7::int) \<noteq> 0
   \<and> calls (snd (get_partners remote_no_match (Some 7) (Some ''x@y.com'') (Some ''x'') io_start))
       = [Search_read ''res.partner'' (Arr [Arr [Str ''id'', Str ''='', Num 7]]) ''Asia/Singapore'']"
proof -
  have h: "(7::int) \<noteq> 0" by simp
  show ?thesis
    using h get_partners_id_precedence [OF h, of remote_no_match "Some ''x@y.com''" "Some ''x''" io_start]
    by (simp add: io_start_def get_partners_query_calls)
qed

text \<open>
  C6 as stated fails for an \<open>id\<close> that is provided and falsy: with the input
  \<open>{id: 0, email: "x@y.com", name: "x"}\<close> the guard \<open>if (id)\<close> is not taken, and the filter
  sent is the disjunction of the e-mail and the name terms, not \<open>[["id","=",0]]\<close>.
\<close>

theorem get_partners_id_zero_counterexample:
  "calls (snd (get_partners remote_no_match (Some 0) (Some ''x@y.com'') (Some ''x'') io_start))
     = [Search_read ''res.partner''
          (Arr [Str ''|'', Arr [Str ''email'', Str ''='', Str ''x@y.com''],
                Arr [Str ''name'', Str ''ilike'', Str ''x'']]) ''Asia/Singapore'']
   \<and> calls (snd (get_partners remote_no_match (Some 0) (Some ''x@y.com'') (Some ''x'') io_start))
     \<noteq> [Search_read ''res.partner'' (Arr [Arr [Str ''id'', Str ''='', Num 0]]) ''Asia/Singapore'']"
  by (simp add: get_partners_def get_partners_query_calls io_start_def toLowerCase_def
        lower_char_def)

text \<open>
  C7, as amended: when \<open>id\<close> is absent and both \<open>email\<close> and \<open>name\<close> are provided and not
  empty, the filter sent is \<open>["|", ["email","=",e], ["name","ilike",name]]\<close> where \<open>e\<close> is the
  e-mail in lower case (no letter \<open>A\<close> to \<open>Z\<close> is left in it); the name goes unchanged under
  the operator \<open>ilike\<close>.
\<close>

theorem get_partners_email_or_name:
  assumes "e \<noteq> []" and "n \<noteq> []"
  shows "calls (snd (get_partners remote None (Some e) (Some n) s))
           = calls s @ [Search_read ''res.partner''
                          (Arr [Str ''|'', Arr [Str ''email'', Str ''='', Str (toLowerCase e)],
                                Arr [Str ''name'', Str ''ilike'', Str n]]) ''Asia/Singapore'']
       \<and> (\<forall>c\<in>set (toLowerCase e). \<not> (65 \<le> (of_char c :: nat) \<and> (of_char c :: nat) \<le> 90))"
proof -
  have "get_partners remote None (Some e) (Some n) s
          = get_partners_query remote
              (Arr [Str ''|'', Arr [Str ''email'', Str ''='', Str (toLowerCase e)],
                    Arr [Str ''name'', Str ''ilike'', Str n]]) s"
    using assms by (simp add: get_partners_def)
  moreover have "\<forall>c\<in>set (toLowerCase e). \<not> (65 \<le> (of_char c :: nat) \<and> (of_char c :: nat) \<le> 90)"
    unfolding toLowerCase_def using lower_char_not_upper by auto
  ultimately show ?thesis by (simp add: get_partners_query_calls)
qed

text \<open>The input \<open>{email: "A@B.com", name: "Acme"}\<close>.\<close>

theorem get_partners_email_or_name_witness:
  "''A@B.com'' \<noteq> [] \<and> ''Acme'' \<noteq> []
   \<and> calls (snd (get_partners remote_no_match None (Some ''A@B.com'') (Some ''Acme'') io_start))
       = [Search_read ''res.partner''
            (Arr [Str ''|'', Arr [Str ''email'', Str ''='', Str ''a@b.com''],
                  Arr [Str ''name'', Str ''ilike'', Str ''Acme'']]) ''Asia/Singapore'']"
proof -
  have h1: "''A@B.com'' \<noteq> []" and h2: "''Acme'' \<noteq> []" by simp_all
  have l: "toLowerCase ''A@B.com'' = ''a@b.com''"
    by code_simp
  show ?thesis
    using get_partners_email_or_name [OF h1 h2, of remote_no_match io_start]
    by (simp add: l io_start_def)
qed

text \<open>
  C7 as stated fails for a \<open>name\<close> that is provided and empty: with the input
  \<open>{email: "a@b.com", name: ""}\<close> the test \<open>email && name\<close> is falsy, and the filter sent is
  \<open>[["email","=","a@b.com"]]\<close>, not the disjunction.
\<close>

theorem get_partners_empty_name_counterexample:
  "calls (snd (get_partners remote_no_match None (Some ''a@b.com'') (Some []) io_start))
     = [Search_read ''res.partner'' (Arr [Arr [Str ''email'', Str ''='', Str ''a@b.com'']])
          ''Asia/Singapore'']
   \<and> calls (snd (get_partners remote_no_match None (Some ''a@b.com'') (Some []) io_start))
     \<noteq> [Search_read ''res.partner''
          (Arr [Str ''|'', Arr [Str ''email'', Str ''='', Str ''a@b.com''],
                Arr [Str ''name'', Str ''ilike'', Str []]]) ''Asia/Singapore'']"
  by (simp add: get_partners_def get_partners_query_calls io_start_def toLowerCase_def
        lower_char_def)

text \<open>
  C8: when none of \<open>id\<close>, \<open>email\<close>, \<open>name\<close> is provided, the handler returns the single text
  content \<open>"[]"\<close>, and the observable state is the one it started from: no call to the remote
  has been issued.
\<close>

theorem get_partners_without_input:
  "get_partners remote None None None s
     = (Inr (Obj [(''content'', Arr [Obj [(''type'', Str ''text''), (''text'', Str ''[]'')]])]), s)"
  by (simp add: get_partners_def text_content_def)

text \<open>
  C9: for every client configuration, the text returned by \<open>odx_config\<close> is the JSON object
  with the properties \<open>url\<close>, \<open>database\<close>, \<open>gateway\<close> (left out by the serializer when no
  gateway is configured) and \<open>userUid\<close>, and nothing else; replacing \<open>instance.api_key\<close> and
  \<open>odx_api_key\<close> by any other values leaves the output identical.
\<close>

theorem odx_config_reveals_no_key:
  "odx_config cfg =
     Obj [(''content'', Arr [Obj [(''type'', Str ''text''), (''text'', Str
       (''{'' @ newline
        @ ''  '' @ QuoteJSONString ''url'' @ '': '' @ QuoteJSONString (url (instance' cfg))
        @ '','' @ newline
        @ ''  '' @ QuoteJSONString ''database'' @ '': '' @ QuoteJSONString (db (instance' cfg))
        @ '','' @ newline
        @ (case gateway_url cfg of
             None \<Rightarrow> []
           | Some g \<Rightarrow> ''  '' @ QuoteJSONString ''gateway'' @ '': '' @ QuoteJSONString g
                       @ '','' @ newline)
        @ ''  '' @ QuoteJSONString ''userUid'' @ '': '' @ Number_toString (user_id (instance' cfg))
        @ newline @ ''}''))]])]
   \<and> odx_config (cfg\<lparr>instance' := (instance' cfg)\<lparr>api_key := k1\<rparr>, odx_api_key := k2\<rparr>)
       = odx_config cfg"
  by (cases "gateway_url cfg")
     (simp_all add: odx_config_def text_content_def JSON_stringify_def gap_def)

section \<open>Properties of the tools behind their schemas\<close>

lemma get_companies_calls:
  "calls (snd (get_companies remote name id' s))
     = calls s @ [Search_read ''res.company''
                    (Arr [Arr ((case truthy_str name of
                                  Some n \<Rightarrow> [Arr [Str ''name'', Str ''ilike'', Str n]]
                                | None \<Rightarrow> [])
                               @ (case truthy_num id' of
                                    Some i \<Rightarrow> [Arr [Str ''id'', Str ''='', Num i]]
                                  | None \<Rightarrow> []))]) ''Asia/Singapore'']"
  by (cases "truthy_str name"; cases "truthy_num id'")
     (simp_all add: get_companies_def search_read_def Let_def split: sum.split)

text \<open>
  C10, as amended: at the tool interface, the falsy inputs that the input schema admits are
  treated as absent. In \<open>get_partners\<close> an \<open>id\<close> of \<open>0\<close> does not select the id branch: the
  filter is the one for the e-mail and the name given with it (their disjunction, the e-mail
  alone, the name alone), and with no other input the tool returns \<open>"[]"\<close> without a query; an
  empty \<open>name\<close> contributes no filter (the e-mail alone, the id alone, or \<open>"[]"\<close> without a
  query); in both cases the tool does what it does when the input is absent. An empty
  \<open>email\<close> is not treated as absent: whenever the e-mail check refuses the empty string, the
  call is refused before the handler runs, and no query is issued. In \<open>get_companies\<close> an
  empty \<open>name\<close> and an \<open>id\<close> of \<open>0\<close> add no filter term: the query carries the other term
  alone, or the empty filter, which returns all companies.
\<close>

theorem falsy_inputs_at_the_interface:
  "(z_email e \<and> e \<noteq> [] \<and> n \<noteq> [] \<longrightarrow>
      get_partners_tool z_email remote (Some 0) (Some e) (Some n) s
        = get_partners_query remote
            (Arr [Str ''|'', Arr [Str ''email'', Str ''='', Str (toLowerCase e)],
                  Arr [Str ''name'', Str ''ilike'', Str n]]) s
    \<and> calls (snd (get_partners_tool z_email remote (Some 0) (Some e) (Some n) s))
        = calls s @ [Search_read ''res.partner''
                       (Arr [Str ''|'', Arr [Str ''email'', Str ''='', Str (toLowerCase e)],
                             Arr [Str ''name'', Str ''ilike'', Str n]]) ''Asia/Singapore''])
   \<and> (z_email e \<and> e \<noteq> [] \<longrightarrow>
      get_partners_tool z_email remote (Some 0) (Some e) None s
        = get_partners_query remote (Arr [Arr [Str ''email'', Str ''='', Str (toLowerCase e)]]) s
    \<and> get_partners_tool z_email remote None (Some e) (Some []) s
        = get_partners_query remote (Arr [Arr [Str ''email'', Str ''='', Str (toLowerCase e)]]) s
    \<and> calls (snd (get_partners_tool z_email remote None (Some e) (Some []) s))
        = calls s @ [Search_read ''res.partner''
                       (Arr [Arr [Str ''email'', Str ''='', Str (toLowerCase e)]])
                       ''Asia/Singapore''])
   \<and> (n \<noteq> [] \<longrightarrow>
      get_partners_tool z_email remote (Some 0) None (Some n) s
        = get_partners_query remote (Arr [Arr [Str ''name'', Str ''ilike'', Str n]]) s
    \<and> calls (snd (get_partners_tool z_email remote (Some 0) None (Some n) s))
        = calls s @ [Search_read ''res.partner''
                       (Arr [Arr [Str ''name'', Str ''ilike'', Str n]]) ''Asia/Singapore''])
   \<and> (i \<noteq> 0 \<longrightarrow>
      calls (snd (get_partners_tool z_email remote (Some i) None (Some []) s))
        = calls s @ [Search_read ''res.partner''
                       (Arr [Arr [Str ''id'', Str ''='', Num i]]) ''Asia/Singapore''])
   \<and> get_partners_tool z_email remote (Some 0) None None s
        = (Inr (Obj [(''content'', Arr [Obj [(''type'', Str ''text''), (''text'', Str ''[]'')]])]), s)
   \<and> get_partners_tool z_email remote None None (Some []) s
        = (Inr (Obj [(''content'', Arr [Obj [(''type'', Str ''text''), (''text'', Str ''[]'')]])]), s)
   \<and> get_partners_tool z_email remote (Some 0) email name s
        = get_partners_tool z_email remote None email name s
   \<and> get_partners_tool z_email remote id' email (Some []) s
        = get_partners_tool z_email remote id' email None s
   \<and> (\<not> z_email [] \<longrightarrow>
      get_partners_tool z_email remote id' (Some []) name s
        = (Inl (JsError ''Invalid arguments for tool get_partners''), s))
   \<and> calls (snd (get_companies_tool remote (Some []) (Some 0) s))
        = calls s @ [Search_read ''res.company'' (Arr [Arr []]) ''Asia/Singapore'']
   \<and> (i \<noteq> 0 \<longrightarrow>
      calls (snd (get_companies_tool remote (Some []) (Some i) s))
        = calls s @ [Search_read ''res.company''
                       (Arr [Arr [Arr [Str ''id'', Str ''='', Num i]]]) ''Asia/Singapore''])
   \<and> (n \<noteq> [] \<longrightarrow>
      calls (snd (get_companies_tool remote (Some n) (Some 0) s))
        = calls s @ [Search_read ''res.company''
                       (Arr [Arr [Arr [Str ''name'', Str ''ilike'', Str n]]]) ''Asia/Singapore''])
   \<and> get_companies_tool remote (Some []) id' s = get_companies_tool remote None id' s
   \<and> get_companies_tool remote name (Some 0) s = get_companies_tool remote name None s"
proof -
  have p1: "get_partners_tool z_email remote (Some 0) (Some e) (Some n) s
        = get_partners_query remote
            (Arr [Str ''|'', Arr [Str ''email'', Str ''='', Str (toLowerCase e)],
                  Arr [Str ''name'', Str ''ilike'', Str n]]) s"
    if "z_email e" "e \<noteq> []" "n \<noteq> []"
    using that by (simp add: get_partners_tool_def get_partners_def)
  have p2: "get_partners_tool z_email remote (Some 0) (Some e) None s
        = get_partners_query remote (Arr [Arr [Str ''email'', Str ''='', Str (toLowerCase e)]]) s"
    and p3: "get_partners_tool z_email remote None (Some e) (Some []) s
        = get_partners_query remote (Arr [Arr [Str ''email'', Str ''='', Str (toLowerCase e)]]) s"
    if "z_email e" "e \<noteq> []"
    using that by (simp_all add: get_partners_tool_def get_partners_def)
  have p4: "get_partners_tool z_email remote (Some 0) None (Some n) s
        = get_partners_query remote (Arr [Arr [Str ''name'', Str ''ilike'', Str n]]) s"
    if "n \<noteq> []"
    using that by (simp add: get_partners_tool_def get_partners_def)
  have p5: "get_partners_tool z_email remote (Some i) None (Some []) s
        = get_partners_query remote (Arr [Arr [Str ''id'', Str ''='', Num i]]) s"
    if "i \<noteq> 0"
    using that by (simp add: get_partners_tool_def get_partners_def)
  have p6: "get_partners_tool z_email remote (Some 0) None None s
        = (Inr (Obj [(''content'', Arr [Obj [(''type'', Str ''text''), (''text'', Str ''[]'')]])]), s)"
    and p7: "get_partners_tool z_email remote None None (Some []) s
        = (Inr (Obj [(''content'', Arr [Obj [(''type'', Str ''text''), (''text'', Str ''[]'')]])]), s)"
    by (simp_all add: get_partners_tool_def get_partners_def text_content_def)
  have p8: "get_partners_tool z_email remote (Some 0) email name s
        = get_partners_tool z_email remote None email name s"
    by (cases email) (simp_all add: get_partners_tool_def get_partners_def)
  have h9: "get_partners remote id' em (Some []) s = get_partners remote id' em None s" for em
    by (cases "truthy_num id'") (simp_all add: get_partners_def)
  have p9: "get_partners_tool z_email remote id' email (Some []) s
        = get_partners_tool z_email remote id' email None s"
    by (cases email) (simp_all add: get_partners_tool_def h9)
  have p10: "get_partners_tool z_email remote id' (Some []) name s
        = (Inl (JsError ''Invalid arguments for tool get_partners''), s)"
    if "\<not> z_email []"
    using that by (simp add: get_partners_tool_def)
  have c1: "calls (snd (get_companies_tool remote (Some []) (Some 0) s))
        = calls s @ [Search_read ''res.company'' (Arr [Arr []]) ''Asia/Singapore'']"
    by (simp add: get_companies_tool_def get_companies_calls)
  have c2: "calls (snd (get_companies_tool remote (Some []) (Some i) s))
        = calls s @ [Search_read ''res.company''
                       (Arr [Arr [Arr [Str ''id'', Str ''='', Num i]]]) ''Asia/Singapore'']"
    if "i \<noteq> 0"
    using that by (simp add: get_companies_tool_def get_companies_calls)
  have c3: "calls (snd (get_companies_tool remote (Some n) (Some 0) s))
        = calls s @ [Search_read ''res.company''
                       (Arr [Arr [Arr [Str ''name'', Str ''ilike'', Str n]]]) ''Asia/Singapore'']"
    if "n \<noteq> []"
    using that by (simp add: get_companies_tool_def get_companies_calls)
  have c4: "get_companies_tool remote (Some []) id' s = get_companies_tool remote None id' s"
    and c5: "get_companies_tool remote name (Some 0) s = get_companies_tool remote name None s"
    by (simp_all add: get_companies_tool_def get_companies_def)
  show ?thesis
    using p1 p2 p3 p4 p5 p6 p7 p8 p9 p10 c1 c2 c3 c4 c5
    by (simp add: get_partners_query_calls)
qed

text \<open>
  With the e-mail \<open>a@b.com\<close>, the name \<open>Acme\<close> and the id \<open>7\<close>, against the e-mail check that
  demands an \<open>@\<close>.
\<close>

theorem falsy_inputs_at_the_interface_witness:
  "email_with_at ''a@b.com'' \<and> ''a@b.com'' \<noteq> [] \<and> ''Acme'' \<noteq> [] \<and> (7::int) \<noteq> 0
   \<and> \<not> email_with_at []
   \<and> calls (snd (get_partners_tool email_with_at remote_no_match (Some 0) (Some ''a@b.com'')
                   (Some ''Acme'') io_start))
       = [Search_read ''res.partner''
            (Arr [Str ''|'', Arr [Str ''email'', Str ''='', Str ''a@b.com''],
                  Arr [Str ''name'', Str ''ilike'', Str ''Acme'']]) ''Asia/Singapore'']
   \<and> calls (snd (get_partners_tool email_with_at remote_no_match None (Some ''a@b.com'')
                   (Some []) io_start))
       = [Search_read ''res.partner'' (Arr [Arr [Str ''email'', Str ''='', Str ''a@b.com'']])
            ''Asia/Singapore'']
   \<and> get_partners_tool email_with_at remote_no_match None (Some []) None io_start
       = (Inl (JsError ''Invalid arguments for tool get_partners''), io_start)
   \<and> calls (snd (get_companies_tool remote_no_match (Some []) (Some 7) io_start))
       = [Search_read ''res.company'' (Arr [Arr [Arr [Str ''id'', Str ''='', Num 7]]])
            ''Asia/Singapore'']
   \<and> calls (snd (get_companies_tool remote_no_match (Some ''Acme'') (Some 0) io_start))
       = [Search_read ''res.company'' (Arr [Arr [Arr [Str ''name'', Str ''ilike'', Str ''Acme'']]])
            ''Asia/Singapore'']"
proof -
  have h: "email_with_at ''a@b.com''" "''a@b.com'' \<noteq> []" "''Acme'' \<noteq> []" "(7::int) \<noteq> 0"
    "\<not> email_with_at []"
    by (simp_all add: email_with_at_def)
  have l: "toLowerCase ''a@b.com'' = ''a@b.com''" by code_simp
  have c: "calls io_start = []" by (simp add: io_start_def)
  show ?thesis
    using h falsy_inputs_at_the_interface
            [where z_email = email_with_at and e = "''a@b.com''" and n = "''Acme''"
               and i = 7 and remote = remote_no_match and s = io_start
               and id' = None and email = None and name = None]
    by (simp add: l c get_partners_query_calls)
qed

text \<open>
  C10 as stated fails for the empty e-mail: the input \<open>{email: "", name: "Acme"}\<close> is refused
  by the schema and no query is issued, whereas the input \<open>{name: "Acme"}\<close>, where the e-mail
  is absent, sends the filter \<open>[["name","ilike","Acme"]]\<close>.
\<close>

theorem empty_email_at_the_interface_counterexample:
  "get_partners_tool email_with_at remote_no_match None (Some []) (Some ''Acme'') io_start
     = (Inl (JsError ''Invalid arguments for tool get_partners''), io_start)
   \<and> get_partners_tool email_with_at remote_no_match None None (Some ''Acme'') io_start
     = (Inr (Obj [(''content'', Arr [Obj [(''type'', Str ''text''), (''text'', Str ''[]'')]])]),
        \<lparr>calls = [Search_read ''res.partner'' (Arr [Arr [Str ''name'', Str ''ilike'', Str ''Acme'']])
                    ''Asia/Singapore''],
         console_error = []\<rparr>)"
  by (simp add: get_partners_tool_def email_with_at_def get_partners_def get_partners_query_def
        search_read_def remote_no_match_def io_start_def text_content_def JSON_stringify_def)

end
